theory Spec2Isabelle
  imports Complex_Main "HOL-Library.Word"
begin

section \<open>JavaScript strings\<close>

text \<open>
  A JavaScript string is a sequence of UTF-16 code units.  Literals of the source are
  written \<open>js ''...''\<close>.
\<close>

type_synonym jschar = "16 word"
type_synonym jsstring = "jschar list"

definition js :: "string \<Rightarrow> jsstring" where
  "js s = map of_char s"

text \<open>
  The code units that \<open>String.prototype.trim\<close> strips: ECMAScript's WhiteSpace (TAB, VT,
  FF, ZWNBSP and the Unicode category Zs) and LineTerminator (LF, CR, LS, PS).
\<close>

definition isWhiteSpace :: "jschar \<Rightarrow> bool" where
  "isWhiteSpace c \<longleftrightarrow>
     c = 0x0009 \<or> c = 0x000A \<or> c = 0x000B \<or> c = 0x000C \<or> c = 0x000D \<or> c = 0x0020 \<or>
     c = 0x00A0 \<or> c = 0x1680 \<or> (0x2000 \<le> c \<and> c \<le> 0x200A) \<or> c = 0x2028 \<or>
     c = 0x2029 \<or> c = 0x202F \<or> c = 0x205F \<or> c = 0x3000 \<or> c = 0xFEFF"

definition trimStart :: "jsstring \<Rightarrow> jsstring" where
  "trimStart s = dropWhile isWhiteSpace s"

definition trimEnd :: "jsstring \<Rightarrow> jsstring" where
  "trimEnd s = rev (dropWhile isWhiteSpace (rev s))"

definition trim :: "jsstring \<Rightarrow> jsstring" where
  "trim s = trimEnd (trimStart s)"

definition startsWith :: "jsstring \<Rightarrow> jsstring \<Rightarrow> bool" where
  "startsWith s p \<longleftrightarrow> take (length p) s = p"

fun includes_js :: "jsstring \<Rightarrow> jsstring \<Rightarrow> bool" where
  "includes_js [] p \<longleftrightarrow> p = []"
| "includes_js (c # cs) p \<longleftrightarrow> startsWith (c # cs) p \<or> includes_js cs p"

text \<open>\<open>Array.prototype.join\<close> on an array of strings.\<close>

fun join :: "jsstring \<Rightarrow> jsstring list \<Rightarrow> jsstring" where
  "join sep [] = []"
| "join sep [x] = x"
| "join sep (x # y # ys) = x @ sep @ join sep (y # ys)"

section \<open>Thrown values, console lines and the trace of a call\<close>

text \<open>
  A thrown value is read by the source only through its \<open>message\<close> property, which is
  \<open>None\<close> when the property is undefined.  A template literal prints an undefined
  value as the text \<open>undefined\<close>; a condition takes undefined and the empty string as false.
\<close>

datatype js_error = JsError (message: "jsstring option")

definition new_Error :: "jsstring \<Rightarrow> js_error" where
  "new_Error m = JsError (Some m)"

definition template :: "jsstring option \<Rightarrow> jsstring" where
  "template v = (case v of None \<Rightarrow> js ''undefined'' | Some s \<Rightarrow> s)"

definition truthy :: "jsstring option \<Rightarrow> bool" where
  "truthy v = (case v of None \<Rightarrow> False | Some s \<Rightarrow> s \<noteq> [])"

text \<open>
  A progress message \<open>m\<close> of the recognition engine, and the object handed to the
  caller's progress callback; \<open>progress\<close> is \<open>None\<close> when the property is undefined.
\<close>

record progress_msg =
  status :: jsstring
  progress :: "real option"

text \<open>\<open>m.progress || 0\<close>\<close>

definition or_zero :: "real option \<Rightarrow> real option" where
  "or_zero p = (case p of None \<Rightarrow> Some 0 | Some x \<Rightarrow> Some x)"

datatype callback = Null | Sink

datatype decoder = PdfDecoder | DocxDecoder | OcrDecoder

datatype level = Log | Warn | Err

datatype console_line =
    StartingOcr jsstring
  | OcrProgress progress_msg
  | WorkerCreated
  | OcrCompleted real
  | LowConfidence real
  | OcrError js_error
  | WorkerTerminated
  | TerminateFailed js_error
  | StartingMultiLang jsstring
  | MultiLangCompleted real
  | MultiLangError js_error
  | ExtractError js_error

text \<open>
  What a call does besides returning: the decoder it enters, the calls to the engine, the
  calls of the progress callback and the console lines, in the order they happen.
\<close>

datatype event =
    Invoke decoder
  | CreateWorker jsstring
  | Recognize
  | Terminate
  | OnProgress progress_msg
  | Console level console_line

definition decoders_invoked :: "event list \<Rightarrow> decoder list" where
  "decoders_invoked t = concat (map (\<lambda>e. case e of Invoke d \<Rightarrow> [d] | _ \<Rightarrow> []) t)"

definition sink_calls :: "event list \<Rightarrow> progress_msg list" where
  "sink_calls t = concat (map (\<lambda>e. case e of OnProgress p \<Rightarrow> [p] | _ \<Rightarrow> []) t)"

definition terminate_count :: "event list \<Rightarrow> nat" where
  "terminate_count t = length (filter (\<lambda>e. e = Terminate) t)"

section \<open>The file and the libraries\<close>

text \<open>The uploaded \<open>File\<close>: its \<open>type\<close> and \<open>name\<close>; its bytes reach the code only through the libraries.\<close>

record js_file =
  file_type :: jsstring
  file_name :: jsstring

text \<open>
  A page of a loaded PDF: \<open>getPage\<close> followed by \<open>getTextContent\<close> either throws or
  gives the \<open>str\<close> of each item.
\<close>

type_synonym pdf_page = "js_error + jsstring list"

text \<open>The \<open>data\<close> of a recognition result: \<open>{ data: { text, confidence } }\<close>.\<close>

record recognition =
  data_text :: jsstring
  data_confidence :: real

text \<open>
  How tesseract.js behaves during one call: the messages it sends to the logger while
  \<open>createWorker\<close> and \<open>recognize\<close> run, and how \<open>createWorker\<close>, \<open>recognize\<close> and
  \<open>terminate\<close> settle (\<open>None\<close>: resolved).
\<close>

record ocr_engine =
  create_progress :: "progress_msg list"
  create_result :: "js_error option"
  recognize_progress :: "progress_msg list"
  recognize_result :: "js_error + recognition"
  terminate_result :: "js_error option"

text \<open>
  How the platform and the libraries answer for the file of the call:
  \<open>file.arrayBuffer()\<close>, \<open>pdfjsLib.getDocument\<close>, \<open>mammoth.extractRawText\<close>, the
  recognition engine, and whether a \<open>FileReader\<close> loads the file (\<open>onload\<close>) or not
  (\<open>onerror\<close>).
\<close>

record libs =
  arrayBuffer :: "js_error option"
  getDocument :: "js_error + pdf_page list"
  extractRawText :: "js_error + jsstring"
  engine :: ocr_engine
  readAsDataURL :: bool

section \<open>PDF and DOCX decoders\<close>

text \<open>The \<open>for\<close> loop over the pages \<open>1..numPages\<close>, with \<open>fullText\<close> as accumulator.\<close>

fun pdf_pages :: "pdf_page list \<Rightarrow> jsstring \<Rightarrow> js_error + jsstring" where
  "pdf_pages [] fullText = Inr fullText"
| "pdf_pages (p # ps) fullText =
     (case p of
        Inl e \<Rightarrow> Inl e
      | Inr items \<Rightarrow>
          (let pageText = join (js '' '') items
           in pdf_pages ps (fullText @ pageText @ js ''\<newline>\<newline>'')))"

definition extractTextFromPDF :: "libs \<Rightarrow> js_error + jsstring" where
  "extractTextFromPDF w =
     (case arrayBuffer w of
        Some e \<Rightarrow> Inl e
      | None \<Rightarrow>
          (case getDocument w of
             Inl e \<Rightarrow> Inl e
           | Inr pdf \<Rightarrow>
               (case pdf_pages pdf [] of
                  Inl e \<Rightarrow> Inl e
                | Inr fullText \<Rightarrow> Inr (trim fullText))))"

definition extractTextFromDOCX :: "libs \<Rightarrow> js_error + jsstring" where
  "extractTextFromDOCX w =
     (case arrayBuffer w of
        Some e \<Rightarrow> Inl e
      | None \<Rightarrow> extractRawText w)"

section \<open>OCR decoder\<close>

definition no_text_message :: jsstring where
  "no_text_message = js ''No text could be recognized in the image. The image may be too blurry, low quality, or may not contain any text.''"

definition recognition_failed_message :: jsstring where
  "recognition_failed_message = js ''Failed to recognize text in image. Please ensure the image contains clear, readable text.''"

definition ocr_failed_prefix :: jsstring where
  "ocr_failed_prefix = js ''OCR processing failed: ''"

text \<open>
  The \<open>logger\<close> option given to \<open>createWorker\<close> by \<open>extractTextFromImage\<close>, run on
  one message of the engine.
\<close>

definition logger :: "callback \<Rightarrow> progress_msg \<Rightarrow> event list" where
  "logger onProgress m =
     Console Log (OcrProgress m) #
     (if onProgress \<noteq> Null then
        (if status m = js ''recognizing text'' then
           [OnProgress \<lparr>status = status m, progress = progress m\<rparr>]
         else if status m = js ''loading tesseract core'' \<or>
                 status m = js ''initializing tesseract'' \<or>
                 status m = js ''loading language traineddata'' then
           [OnProgress \<lparr>status = status m, progress = or_zero (progress m)\<rparr>]
         else [])
      else [])"

text \<open>
  The \<open>try\<close> block of \<open>extractTextFromImage\<close>: what it returns or throws, whether
  \<open>worker\<close> has been assigned, and its trace.
\<close>

definition image_try ::
  "ocr_engine \<Rightarrow> js_file \<Rightarrow> callback \<Rightarrow> (js_error + jsstring) \<times> bool \<times> event list" where
  "image_try eng f onProgress =
     (let t0 = [Console Log (StartingOcr (file_name f)), CreateWorker (js ''eng'')] @
               concat (map (logger onProgress) (create_progress eng))
      in case create_result eng of
           Some e \<Rightarrow> (Inl e, False, t0)
         | None \<Rightarrow>
             (let t1 = t0 @ [Console Log WorkerCreated, Recognize] @
                       concat (map (logger onProgress) (recognize_progress eng))
              in case recognize_result eng of
                   Inl e \<Rightarrow> (Inl e, True, t1)
                 | Inr d \<Rightarrow>
                     (let t2 = t1 @ [Console Log (OcrCompleted (data_confidence d))]
                      in if data_text d = [] \<or> length (trim (data_text d)) = 0 then
                           (Inl (new_Error no_text_message), True, t2)
                         else
                           (Inr (trim (data_text d)), True,
                            t2 @ (if data_confidence d < 60
                                  then [Console Warn (LowConfidence (data_confidence d))]
                                  else [])))))"

text \<open>The \<open>catch\<close> block: it always throws.\<close>

definition image_catch :: "js_error \<Rightarrow> js_error \<times> event list" where
  "image_catch error =
     (if truthy (message error) \<and> includes_js (template (message error)) (js ''recognize'') then
        new_Error recognition_failed_message
      else
        new_Error (ocr_failed_prefix @ template (message error)),
      [Console Err (OcrError error)])"

text \<open>The \<open>finally\<close> block: a failure of \<open>terminate\<close> is logged and goes no further.\<close>

definition image_finally :: "ocr_engine \<Rightarrow> bool \<Rightarrow> event list" where
  "image_finally eng worker =
     (if worker then
        Terminate #
        (case terminate_result eng of
           None \<Rightarrow> [Console Log WorkerTerminated]
         | Some e \<Rightarrow> [Console Warn (TerminateFailed e)])
      else [])"

definition extractTextFromImage ::
  "ocr_engine \<Rightarrow> js_file \<Rightarrow> callback \<Rightarrow> (js_error + jsstring) \<times> event list" where
  "extractTextFromImage eng f onProgress =
     (case image_try eng f onProgress of
        (Inr t, worker, tr) \<Rightarrow> (Inr t, tr @ image_finally eng worker)
      | (Inl error, worker, tr) \<Rightarrow>
          (case image_catch error of
             (e, tc) \<Rightarrow> (Inl e, tr @ tc @ image_finally eng worker)))"

subsection \<open>The multi-language variant\<close>

definition logger_multi :: "callback \<Rightarrow> progress_msg \<Rightarrow> event list" where
  "logger_multi onProgress m =
     Console Log (OcrProgress m) #
     (if onProgress \<noteq> Null then
        [OnProgress \<lparr>status = status m, progress = or_zero (progress m)\<rparr>]
      else [])"

definition multi_try ::
  "ocr_engine \<Rightarrow> jsstring list \<Rightarrow> callback \<Rightarrow> (js_error + jsstring) \<times> bool \<times> event list" where
  "multi_try eng languages onProgress =
     (let langString = join (js ''+'') languages;
          t0 = [Console Log (StartingMultiLang (join (js '', '') languages)),
                CreateWorker langString] @
               concat (map (logger_multi onProgress) (create_progress eng))
      in case create_result eng of
           Some e \<Rightarrow> (Inl e, False, t0)
         | None \<Rightarrow>
             (let t1 = t0 @ [Recognize] @
                       concat (map (logger_multi onProgress) (recognize_progress eng))
              in case recognize_result eng of
                   Inl e \<Rightarrow> (Inl e, True, t1)
                 | Inr d \<Rightarrow>
                     (let t2 = t1 @ [Console Log (MultiLangCompleted (data_confidence d))]
                      in if data_text d = [] \<or> length (trim (data_text d)) = 0 then
                           (Inl (new_Error (js ''No text could be recognized in the image.'')),
                            True, t2)
                         else (Inr (trim (data_text d)), True, t2))))"

definition multi_finally :: "ocr_engine \<Rightarrow> bool \<Rightarrow> event list" where
  "multi_finally eng worker =
     (if worker then
        Terminate #
        (case terminate_result eng of
           None \<Rightarrow> []
         | Some e \<Rightarrow> [Console Warn (TerminateFailed e)])
      else [])"

definition extractTextFromImageMultiLang ::
  "ocr_engine \<Rightarrow> jsstring list \<Rightarrow> callback \<Rightarrow> (js_error + jsstring) \<times> event list" where
  "extractTextFromImageMultiLang eng languages onProgress =
     (case multi_try eng languages onProgress of
        (Inr t, worker, tr) \<Rightarrow> (Inr t, tr @ multi_finally eng worker)
      | (Inl error, worker, tr) \<Rightarrow>
          (Inl (new_Error (ocr_failed_prefix @ template (message error))),
           tr @ [Console Err (MultiLangError error)] @ multi_finally eng worker))"

subsection \<open>What the engine reports, and the stages of the progress model\<close>

text \<open>
  The messages that reach the logger during a call: those of \<open>createWorker\<close>, then those
  of \<open>recognize\<close> if the worker was created.
\<close>

definition engine_messages :: "ocr_engine \<Rightarrow> progress_msg list" where
  "engine_messages eng =
     create_progress eng @ (if create_result eng = None then recognize_progress eng else [])"

text \<open>
  The engine's names for the four stages loading core, initializing, loading language data
  and recognizing.
\<close>

definition enumerated_statuses :: "jsstring list" where
  "enumerated_statuses =
     [js ''loading tesseract core'', js ''initializing tesseract'',
      js ''loading language traineddata'', js ''recognizing text'']"

section \<open>Extraction dispatcher\<close>

definition pdf_type :: jsstring where
  "pdf_type = js ''application/pdf''"

definition docx_type :: jsstring where
  "docx_type = js ''application/vnd.openxmlformats-officedocument.wordprocessingml.document''"

definition extract_failed_prefix :: jsstring where
  "extract_failed_prefix = js ''Failed to extract text: ''"

text \<open>
  The \<open>if\<close> chain inside the \<open>try\<close> of \<open>extractTextFromFile\<close>: the decoder entered is
  recorded in the trace at its call.
\<close>

definition route ::
  "libs \<Rightarrow> js_file \<Rightarrow> callback \<Rightarrow> (js_error + jsstring) \<times> event list" where
  "route w f onProgress =
     (let fileType = file_type f
      in if fileType = pdf_type then
           (extractTextFromPDF w, [Invoke PdfDecoder])
         else if fileType = docx_type then
           (extractTextFromDOCX w, [Invoke DocxDecoder])
         else if startsWith fileType (js ''image/'') then
           (case extractTextFromImage (engine w) f onProgress of
              (r, t) \<Rightarrow> (r, Invoke OcrDecoder # t))
         else
           (Inl (new_Error (js ''Unsupported file type'')), []))"

definition extractTextFromFile ::
  "libs \<Rightarrow> js_file \<Rightarrow> callback \<Rightarrow> (js_error + jsstring) \<times> event list" where
  "extractTextFromFile w f onProgress =
     (case route w f onProgress of
        (Inr t, tr) \<Rightarrow> (Inr t, tr)
      | (Inl error, tr) \<Rightarrow>
          (Inl (new_Error (extract_failed_prefix @ template (message error))),
           tr @ [Console Err (ExtractError error)]))"

text \<open>
  What the \<open>catch\<close> of \<open>extractTextFromFile\<close> makes of the outcome of the \<open>try\<close>: a
  returned text passes, a thrown value is replaced by the uniform error.
\<close>

definition rethrow :: "js_error + jsstring \<Rightarrow> js_error + jsstring" where
  "rethrow r =
     (case r of
        Inr t \<Rightarrow> Inr t
      | Inl error \<Rightarrow> Inl (new_Error (extract_failed_prefix @ template (message error))))"

subsection \<open>The dispatcher of \<open>src/utils/fileParser.js\<close>, with the placeholder OCR\<close>

definition extractTextFromImage_placeholder :: "libs \<Rightarrow> js_file \<Rightarrow> js_error + jsstring" where
  "extractTextFromImage_placeholder w f =
     (if readAsDataURL w then
        Inr (js ''This is extracted text from the image: '' @ file_name f @
             js ''\<newline>        \<newline>The image appears to contain a document with multiple paragraphs of text.\<newline>This is a placeholder response that simulates OCR text extraction.\<newline>\<newline>In a production environment, this would be replaced with actual OCR processing\<newline>using a service like Google Cloud Vision, AWS Textract, or Tesseract.js.'')
      else Inl (new_Error (js ''Failed to read image file'')))"

definition route_placeholder :: "libs \<Rightarrow> js_file \<Rightarrow> (js_error + jsstring) \<times> event list" where
  "route_placeholder w f =
     (let fileType = file_type f
      in if fileType = pdf_type then
           (extractTextFromPDF w, [Invoke PdfDecoder])
         else if fileType = docx_type then
           (extractTextFromDOCX w, [Invoke DocxDecoder])
         else if startsWith fileType (js ''image/'') then
           (extractTextFromImage_placeholder w f, [Invoke OcrDecoder])
         else
           (Inl (new_Error (js ''Unsupported file type'')), []))"

definition extractTextFromFile_placeholder ::
  "libs \<Rightarrow> js_file \<Rightarrow> (js_error + jsstring) \<times> event list" where
  "extractTextFromFile_placeholder w f =
     (case route_placeholder w f of
        (Inr t, tr) \<Rightarrow> (Inr t, tr)
      | (Inl error, tr) \<Rightarrow>
          (Inl (new_Error (extract_failed_prefix @ template (message error))),
           tr @ [Console Err (ExtractError error)]))"

section \<open>Example inputs\<close>

definition some_engine :: ocr_engine where
  "some_engine =
     \<lparr>create_progress = [\<lparr>status = js ''initializing tesseract'', progress = Some 0\<rparr>],
      create_result = None,
      recognize_progress = [\<lparr>status = js ''recognizing text'', progress = Some (1/2)\<rparr>,
                            \<lparr>status = js ''recognizing text'', progress = Some 1\<rparr>],
      recognize_result = Inr \<lparr>data_text = js ''  Invoice #123  '', data_confidence = 88\<rparr>,
      terminate_result = None\<rparr>"

definition some_libs :: libs where
  "some_libs =
     \<lparr>arrayBuffer = None,
      getDocument = Inr [Inr [js ''Hello'', js ''World''], Inr [js ''Foo'']],
      extractRawText = Inr (js ''Dear reader,\<newline>''),
      engine = some_engine,
      readAsDataURL = True\<rparr>"

definition pdf_file :: js_file where
  "pdf_file = \<lparr>file_type = pdf_type, file_name = js ''a.pdf''\<rparr>"

definition docx_file :: js_file where
  "docx_file = \<lparr>file_type = docx_type, file_name = js ''a.docx''\<rparr>"

definition png_file :: js_file where
  "png_file = \<lparr>file_type = js ''image/png'', file_name = js ''scan.png''\<rparr>"

definition txt_file :: js_file where
  "txt_file = \<lparr>file_type = js ''text/plain'', file_name = js ''notes.txt''\<rparr>"

text \<open>An engine whose \<open>createWorker\<close> rejects: no worker is ever assigned.\<close>

definition unreachable_engine :: ocr_engine where
  "unreachable_engine =
     \<lparr>create_progress = [\<lparr>status = js ''loading tesseract core'', progress = None\<rparr>],
      create_result = Some (new_Error (js ''Network error'')),
      recognize_progress = [],
      recognize_result = Inl (new_Error (js ''never called'')),
      terminate_result = None\<rparr>"

text \<open>Recognition resolves with \<open>{text: "", confidence: 95}\<close>.\<close>

definition blank_engine :: ocr_engine where
  "blank_engine =
     some_engine\<lparr>recognize_result := Inr \<lparr>data_text = [], data_confidence = 95\<rparr>\<rparr>"

text \<open>Recognition resolves with \<open>{text: "hello", confidence: 42}\<close>.\<close>

definition unsure_engine :: ocr_engine where
  "unsure_engine =
     some_engine\<lparr>recognize_result := Inr \<lparr>data_text = js ''hello'', data_confidence = 42\<rparr>\<rparr>"

text \<open>Recognition resolves with \<open>{text: " ", confidence: 42}\<close>.\<close>

definition whitespace_engine :: ocr_engine where
  "whitespace_engine =
     some_engine\<lparr>recognize_result := Inr \<lparr>data_text = js '' '', data_confidence = 42\<rparr>\<rparr>"

text \<open>An engine that also reports a stage outside the four.\<close>

definition chatty_engine :: ocr_engine where
  "chatty_engine =
     some_engine\<lparr>create_progress :=
       [\<lparr>status = js ''initializing api'', progress = Some (1/4)\<rparr>,
        \<lparr>status = js ''initializing tesseract'', progress = None\<rparr>]\<rparr>"

text \<open>A PDF with no page, one with two pages without items, and one that does not parse.\<close>

definition zero_page_libs :: libs where
  "zero_page_libs = some_libs\<lparr>getDocument := Inr []\<rparr>"

definition blank_pages_libs :: libs where
  "blank_pages_libs = some_libs\<lparr>getDocument := Inr [Inr [], Inr []]\<rparr>"

definition corrupt_libs :: libs where
  "corrupt_libs = some_libs\<lparr>getDocument := Inl (new_Error (js ''Invalid PDF structure''))\<rparr>"

section \<open>Facts about \<open>trim\<close> and \<open>join\<close>\<close>

lemma dropWhile_fixed: "xs = [] \<or> \<not> P (hd xs) \<Longrightarrow> dropWhile P xs = xs"
  by (cases xs) auto

lemma last_dropWhile_eq: "dropWhile P xs \<noteq> [] \<Longrightarrow> last (dropWhile P xs) = last xs"
  by (induction xs) (auto split: if_splits)

lemma trimStart_trimEnd: "trimStart (trimEnd (trimStart s)) = trimEnd (trimStart s)"
proof (cases "trimEnd (trimStart s) = []")
  case True
  then show ?thesis by (simp add: trimStart_def)
next
  case False
  let ?u = "dropWhile isWhiteSpace s"
  let ?v = "dropWhile isWhiteSpace (rev ?u)"
  from False have v: "?v \<noteq> []" by (simp add: trimEnd_def trimStart_def)
  have u: "?u \<noteq> []"
  proof
    assume "?u = []"
    with v show False by simp
  qed
  have "last ?v = last (rev ?u)" using v by (rule last_dropWhile_eq)
  also have "\<dots> = hd ?u" using u by (simp add: last_rev)
  finally have "\<not> isWhiteSpace (last ?v)" using u by (simp add: hd_dropWhile)
  then have "\<not> isWhiteSpace (hd (rev ?v))" using v by (simp add: hd_rev)
  then have "dropWhile isWhiteSpace (rev ?v) = rev ?v" by (intro dropWhile_fixed) simp
  then show ?thesis by (simp add: trimEnd_def trimStart_def)
qed

lemma trimEnd_idem: "trimEnd (trimEnd s) = trimEnd s"
  by (simp add: trimEnd_def)

lemma trim_idem: "trim (trim s) = trim s"
  by (simp add: trim_def trimStart_trimEnd trimEnd_idem)

lemma trim_all_ws: "\<forall>c\<in>set s. isWhiteSpace c \<Longrightarrow> trim s = []"
  by (auto simp: trim_def trimStart_def trimEnd_def dest: set_dropWhileD)

lemma trim_append_ws:
  assumes "\<forall>c\<in>set ws. isWhiteSpace c"
  shows "trim (s @ ws) = trim s"
proof (cases "\<forall>c\<in>set s. isWhiteSpace c")
  case True
  with assms have "\<forall>c\<in>set (s @ ws). isWhiteSpace c" by auto
  then have "trim (s @ ws) = []" by (rule trim_all_ws)
  moreover have "trim s = []" using True by (rule trim_all_ws)
  ultimately show ?thesis by simp
next
  case False
  then obtain c where "c \<in> set s" "\<not> isWhiteSpace c" by auto
  then have "dropWhile isWhiteSpace (s @ ws) = dropWhile isWhiteSpace s @ ws"
    by (rule dropWhile_append1)
  moreover have "dropWhile isWhiteSpace (rev ws @ xs) = dropWhile isWhiteSpace xs" for xs
    using assms by (intro dropWhile_append2) simp
  ultimately show ?thesis by (simp add: trim_def trimStart_def trimEnd_def)
qed

lemma trim_Nil: "trim [] = []"
  by (simp add: trim_def trimStart_def trimEnd_def)

lemma isWhiteSpace_LF: "isWhiteSpace 0x000A"
  by (simp add: isWhiteSpace_def)

lemma js_newlines: "js ''\<newline>\<newline>'' = [0x000A, 0x000A]"
  by (simp add: js_def)

lemma concat_sep_join: "ps \<noteq> [] \<Longrightarrow> concat (map (\<lambda>p. p @ sep) ps) = join sep ps @ sep"
  by (induction sep ps rule: join.induct) auto

lemma pdf_pages_ok:
  "pdf_pages (map Inr pages) acc =
     Inr (acc @ concat (map (\<lambda>items. join (js '' '') items @ js ''\<newline>\<newline>'') pages))"
  by (induction pages arbitrary: acc) (simp_all add: Let_def)

lemma pdf_pages_trim:
  "pdf_pages (map Inr pages) [] = Inr t \<Longrightarrow>
   trim t = trim (join (js ''\<newline>\<newline>'') (map (join (js '' '')) pages))"
proof (cases "pages = []")
  case True
  assume "pdf_pages (map Inr pages) [] = Inr t"
  with True show ?thesis by simp
next
  case False
  assume "pdf_pages (map Inr pages) [] = Inr t"
  then have "t = concat (map (\<lambda>p. p @ js ''\<newline>\<newline>'') (map (join (js '' '')) pages))"
    by (simp add: pdf_pages_ok comp_def)
  also have "\<dots> = join (js ''\<newline>\<newline>'') (map (join (js '' '')) pages) @ js ''\<newline>\<newline>''"
    using False by (intro concat_sep_join) simp
  finally show ?thesis
    by (simp only: js_newlines) (rule trim_append_ws, simp add: isWhiteSpace_LF)
qed

section \<open>Facts about traces\<close>

lemma decoders_invoked_append [simp]:
  "decoders_invoked (xs @ ys) = decoders_invoked xs @ decoders_invoked ys"
  by (simp add: decoders_invoked_def)

lemma decoders_invoked_Cons:
  "decoders_invoked (e # t) = (case e of Invoke d \<Rightarrow> [d] | _ \<Rightarrow> []) @ decoders_invoked t"
  by (simp add: decoders_invoked_def)

lemma decoders_invoked_Nil [simp]: "decoders_invoked [] = []"
  by (simp add: decoders_invoked_def)

lemma decoders_invoked_logger: "decoders_invoked (concat (map (logger cb) ms)) = []"
  by (induction ms) (simp_all add: logger_def decoders_invoked_Cons)

lemma decoders_invoked_image: "decoders_invoked (snd (extractTextFromImage eng f cb)) = []"
  by (simp add: extractTextFromImage_def image_try_def image_catch_def image_finally_def Let_def
        decoders_invoked_logger decoders_invoked_Cons
      split: option.splits sum.splits prod.splits)

lemma terminate_count_append [simp]:
  "terminate_count (xs @ ys) = terminate_count xs + terminate_count ys"
  by (simp add: terminate_count_def)

lemma terminate_count_Cons:
  "terminate_count (e # t) = (if e = Terminate then 1 else 0) + terminate_count t"
  by (simp add: terminate_count_def)

lemma terminate_count_Nil [simp]: "terminate_count [] = 0"
  by (simp add: terminate_count_def)

lemma terminate_count_logger: "terminate_count (concat (map (logger cb) ms)) = 0"
  by (induction ms) (simp_all add: logger_def terminate_count_Cons)

lemma terminate_count_try: "terminate_count (snd (snd (image_try eng f cb))) = 0"
  by (simp add: image_try_def Let_def terminate_count_logger terminate_count_Cons
      split: option.splits sum.splits)

lemma worker_assigned: "fst (snd (image_try eng f cb)) \<longleftrightarrow> create_result eng = None"
  by (simp add: image_try_def Let_def split: option.splits sum.splits)

lemma terminate_count_finally:
  "terminate_count (image_finally eng worker) = (if worker then 1 else 0)"
  by (simp add: image_finally_def terminate_count_Cons split: option.splits)

lemma sink_calls_append [simp]: "sink_calls (xs @ ys) = sink_calls xs @ sink_calls ys"
  by (simp add: sink_calls_def)

lemma sink_calls_Cons:
  "sink_calls (e # t) = (case e of OnProgress p \<Rightarrow> [p] | _ \<Rightarrow> []) @ sink_calls t"
  by (simp add: sink_calls_def)

lemma sink_calls_Nil [simp]: "sink_calls [] = []"
  by (simp add: sink_calls_def)

lemma sink_calls_concat:
  "sink_calls (concat (map g ms)) = concat (map (\<lambda>m. sink_calls (g m)) ms)"
  by (induction ms) simp_all

lemma sink_calls_logger:
  "sink_calls (logger Sink m) =
     (if status m \<in> set enumerated_statuses then
        [\<lparr>status = status m,
          progress = (if status m = js ''recognizing text'' then progress m
                      else or_zero (progress m))\<rparr>]
      else [])"
  by (simp add: logger_def sink_calls_Cons enumerated_statuses_def)

lemma sink_calls_logger_multi:
  "sink_calls (logger_multi Sink m) = [\<lparr>status = status m, progress = or_zero (progress m)\<rparr>]"
  by (simp add: logger_multi_def sink_calls_Cons)

lemma sink_calls_finally [simp]: "sink_calls (image_finally eng wk) = []"
  by (simp add: image_finally_def sink_calls_Cons split: option.splits)

lemma sink_calls_multi_finally [simp]: "sink_calls (multi_finally eng wk) = []"
  by (simp add: multi_finally_def sink_calls_Cons split: option.splits)

lemma sink_calls_image:
  "sink_calls (snd (extractTextFromImage eng f cb)) =
     concat (map (\<lambda>m. sink_calls (logger cb m)) (engine_messages eng))"
  by (simp add: extractTextFromImage_def image_try_def image_catch_def Let_def engine_messages_def
        sink_calls_Cons sink_calls_concat
      split: option.splits sum.splits)

lemma sink_calls_multi:
  "sink_calls (snd (extractTextFromImageMultiLang eng ls cb)) =
     concat (map (\<lambda>m. sink_calls (logger_multi cb m)) (engine_messages eng))"
  by (simp add: extractTextFromImageMultiLang_def multi_try_def Let_def engine_messages_def
        sink_calls_Cons sink_calls_concat
      split: option.splits sum.splits)

section \<open>Facts about the decoders and the dispatcher\<close>

lemma extractTextFromImage_result:
  "fst (extractTextFromImage eng f cb) =
     (case create_result eng of
        Some e \<Rightarrow> Inl (fst (image_catch e))
      | None \<Rightarrow>
          (case recognize_result eng of
             Inl e \<Rightarrow> Inl (fst (image_catch e))
           | Inr d \<Rightarrow>
               if trim (data_text d) = [] then Inl (fst (image_catch (new_Error no_text_message)))
               else Inr (trim (data_text d))))"
  by (auto simp: extractTextFromImage_def image_try_def Let_def trim_Nil
           split: option.splits sum.splits prod.splits)

lemma extractTextFromImage_Inr:
  "fst (extractTextFromImage eng f cb) = Inr t \<Longrightarrow> t \<noteq> [] \<and> trim t = t"
  by (auto simp: extractTextFromImage_result trim_idem split: option.splits sum.splits if_splits)

lemma extractTextFromPDF_Inr: "extractTextFromPDF w = Inr t \<Longrightarrow> trim t = t"
  by (auto simp: extractTextFromPDF_def trim_idem split: option.splits sum.splits)

lemma pdf_pages_blank:
  "\<forall>p\<in>set pages. p = Inr [] \<Longrightarrow> \<forall>c\<in>set acc. isWhiteSpace c \<Longrightarrow>
   \<exists>t. pdf_pages pages acc = Inr t \<and> (\<forall>c\<in>set t. isWhiteSpace c)"
proof (induction pages arbitrary: acc)
  case Nil
  then show ?case by simp
next
  case (Cons p ps)
  have "\<forall>c\<in>set (acc @ js ''\<newline>\<newline>''). isWhiteSpace c"
    using Cons.prems(2) by (auto simp: js_newlines isWhiteSpace_LF)
  with Cons.IH [of "acc @ js ''\<newline>\<newline>''"] Cons.prems(1) show ?case
    by (simp add: Let_def)
qed

lemma extractTextFromPDF_blank:
  assumes "arrayBuffer w = None" and "getDocument w = Inr pages"
    and "\<forall>p\<in>set pages. p = Inr []"
  shows "extractTextFromPDF w = Inr []"
proof -
  obtain t where t: "pdf_pages pages [] = Inr t" "\<forall>c\<in>set t. isWhiteSpace c"
    using pdf_pages_blank [OF assms(3), of "[]"] by auto
  have "trim t = []" using t(2) by (rule trim_all_ws)
  with t(1) assms(1,2) show ?thesis
    by (simp add: extractTextFromPDF_def)
qed

lemma not_image_pdf: "\<not> startsWith pdf_type (js ''image/'')"
  by (simp add: startsWith_def pdf_type_def js_def)

lemma not_image_docx: "\<not> startsWith docx_type (js ''image/'')"
  by (simp add: startsWith_def docx_type_def js_def)

lemma pdf_not_docx: "pdf_type \<noteq> docx_type"
  by (simp add: docx_type_def pdf_type_def js_def)

lemma unsupported_wrapped:
  "extract_failed_prefix @ template (message (new_Error (js ''Unsupported file type''))) =
     js ''Failed to extract text: Unsupported file type''"
  by (simp add: extract_failed_prefix_def template_def new_Error_def js_def)

lemma route_pdf:
  "file_type f = pdf_type \<Longrightarrow> route w f cb = (extractTextFromPDF w, [Invoke PdfDecoder])"
  by (simp add: route_def)

lemma route_docx:
  "file_type f = docx_type \<Longrightarrow> route w f cb = (extractTextFromDOCX w, [Invoke DocxDecoder])"
  using pdf_not_docx by (simp add: route_def)

lemma route_image:
  "startsWith (file_type f) (js ''image/'') \<Longrightarrow>
   route w f cb = (fst (extractTextFromImage (engine w) f cb),
                   Invoke OcrDecoder # snd (extractTextFromImage (engine w) f cb))"
proof -
  assume img: "startsWith (file_type f) (js ''image/'')"
  then have "file_type f \<noteq> pdf_type" "file_type f \<noteq> docx_type"
    using not_image_pdf not_image_docx by auto
  with img show ?thesis by (simp add: route_def split: prod.splits)
qed

lemma route_other:
  "file_type f \<noteq> pdf_type \<Longrightarrow> file_type f \<noteq> docx_type \<Longrightarrow>
   \<not> startsWith (file_type f) (js ''image/'') \<Longrightarrow>
   route w f cb = (Inl (new_Error (js ''Unsupported file type'')), [])"
  by (simp add: route_def)

lemma route_placeholder_pdf:
  "file_type f = pdf_type \<Longrightarrow>
   route_placeholder w f = (extractTextFromPDF w, [Invoke PdfDecoder])"
  by (simp add: route_placeholder_def)

lemma route_placeholder_docx:
  "file_type f = docx_type \<Longrightarrow>
   route_placeholder w f = (extractTextFromDOCX w, [Invoke DocxDecoder])"
  using pdf_not_docx by (simp add: route_placeholder_def)

lemma route_placeholder_image:
  "startsWith (file_type f) (js ''image/'') \<Longrightarrow>
   route_placeholder w f = (extractTextFromImage_placeholder w f, [Invoke OcrDecoder])"
proof -
  assume img: "startsWith (file_type f) (js ''image/'')"
  then have "file_type f \<noteq> pdf_type" "file_type f \<noteq> docx_type"
    using not_image_pdf not_image_docx by auto
  with img show ?thesis by (simp add: route_placeholder_def)
qed

lemma route_placeholder_other:
  "file_type f \<noteq> pdf_type \<Longrightarrow> file_type f \<noteq> docx_type \<Longrightarrow>
   \<not> startsWith (file_type f) (js ''image/'') \<Longrightarrow>
   route_placeholder w f = (Inl (new_Error (js ''Unsupported file type'')), [])"
  by (simp add: route_placeholder_def)

lemma extractTextFromFile_fst: "fst (extractTextFromFile w f cb) = rethrow (fst (route w f cb))"
  by (simp add: extractTextFromFile_def rethrow_def split: prod.splits sum.splits)

lemma extractTextFromFile_invoked:
  "decoders_invoked (snd (extractTextFromFile w f cb)) = decoders_invoked (snd (route w f cb))"
  by (simp add: extractTextFromFile_def decoders_invoked_Cons split: prod.splits sum.splits)

lemma extractTextFromFile_placeholder_fst:
  "fst (extractTextFromFile_placeholder w f) = rethrow (fst (route_placeholder w f))"
  by (simp add: extractTextFromFile_placeholder_def rethrow_def split: prod.splits sum.splits)

lemma extractTextFromFile_placeholder_invoked:
  "decoders_invoked (snd (extractTextFromFile_placeholder w f)) =
     decoders_invoked (snd (route_placeholder w f))"
  by (simp add: extractTextFromFile_placeholder_def decoders_invoked_Cons
      split: prod.splits sum.splits)

lemma rethrow_Inr: "rethrow r = Inr t \<longleftrightarrow> r = Inr t"
  by (simp add: rethrow_def split: sum.splits)

lemma no_text_includes_recognize: "includes_js no_text_message (js ''recognize'')"
  by (simp add: no_text_message_def js_def startsWith_def)

lemma no_text_nonempty: "no_text_message \<noteq> []"
  by (simp add: no_text_message_def js_def)

lemma catch_no_text:
  "fst (image_catch (new_Error no_text_message)) = new_Error recognition_failed_message"
  using no_text_includes_recognize no_text_nonempty
  by (simp add: image_catch_def new_Error_def truthy_def template_def)

lemma messages_differ: "recognition_failed_message \<noteq> no_text_message"
  by (simp add: recognition_failed_message_def no_text_message_def js_def)

lemma failed_message_no_blurry:
  "\<not> includes_js recognition_failed_message (js ''blurry'')"
  by (simp add: recognition_failed_message_def js_def startsWith_def)

lemma ocr_failed_network:
  "ocr_failed_prefix @ js ''Network error'' = js ''OCR processing failed: Network error''"
  by (simp add: ocr_failed_prefix_def js_def)

lemma network_no_recognize: "\<not> includes_js (js ''Network error'') (js ''recognize'')"
  by (simp add: js_def startsWith_def)

lemma trim_hello: "trim (js ''hello'') = js ''hello''"
  by (simp add: js_def trim_def trimStart_def trimEnd_def isWhiteSpace_def)

lemma trim_invoice: "trim (js ''  Invoice #123  '') = js ''Invoice #123''"
  by (simp add: js_def trim_def trimStart_def trimEnd_def isWhiteSpace_def)

lemma some_engine_result:
  "fst (extractTextFromImage some_engine png_file cb) = Inr (js ''Invoice #123'')"
proof -
  have "js ''Invoice #123'' \<noteq> []" by (simp add: js_def)
  then show ?thesis
    by (simp add: extractTextFromImage_result some_engine_def trim_invoice)
qed

lemma png_is_image: "startsWith (file_type png_file) (js ''image/'')"
  by (simp add: png_file_def startsWith_def js_def)

lemma txt_is_other:
  "file_type txt_file \<noteq> pdf_type \<and> file_type txt_file \<noteq> docx_type \<and>
   \<not> startsWith (file_type txt_file) (js ''image/'')"
  by (simp add: txt_file_def pdf_type_def docx_type_def startsWith_def js_def)

section \<open>Dispatcher: routing by media type\<close>

text \<open>
  C1. \<open>extractTextFromFile\<close> enters the PDF decoder and no other when the type is
  exactly \<open>application/pdf\<close>, the DOCX decoder alone when it is exactly the DOCX type,
  the OCR decoder alone when it starts with \<open>image/\<close>, and in each case hands on that
  decoder's outcome; for every other type it fails with the error of an unsupported
  type and its trace holds nothing but the console line of that error: no decoder is
  entered.  The dispatcher of \<open>src/utils/fileParser.js\<close> routes the same way.
\<close>

theorem extractTextFromFile_routing:
  "(file_type f = pdf_type \<longrightarrow>
      decoders_invoked (snd (extractTextFromFile w f cb)) = [PdfDecoder] \<and>
      fst (extractTextFromFile w f cb) = rethrow (extractTextFromPDF w) \<and>
      decoders_invoked (snd (extractTextFromFile_placeholder w f)) = [PdfDecoder] \<and>
      fst (extractTextFromFile_placeholder w f) = rethrow (extractTextFromPDF w)) \<and>
   (file_type f = docx_type \<longrightarrow>
      decoders_invoked (snd (extractTextFromFile w f cb)) = [DocxDecoder] \<and>
      fst (extractTextFromFile w f cb) = rethrow (extractTextFromDOCX w) \<and>
      decoders_invoked (snd (extractTextFromFile_placeholder w f)) = [DocxDecoder] \<and>
      fst (extractTextFromFile_placeholder w f) = rethrow (extractTextFromDOCX w)) \<and>
   (startsWith (file_type f) (js ''image/'') \<longrightarrow>
      decoders_invoked (snd (extractTextFromFile w f cb)) = [OcrDecoder] \<and>
      fst (extractTextFromFile w f cb) = rethrow (fst (extractTextFromImage (engine w) f cb)) \<and>
      decoders_invoked (snd (extractTextFromFile_placeholder w f)) = [OcrDecoder] \<and>
      fst (extractTextFromFile_placeholder w f) =
        rethrow (extractTextFromImage_placeholder w f)) \<and>
   (file_type f \<noteq> pdf_type \<and> file_type f \<noteq> docx_type \<and>
    \<not> startsWith (file_type f) (js ''image/'') \<longrightarrow>
      extractTextFromFile w f cb =
        (Inl (new_Error (js ''Failed to extract text: Unsupported file type'')),
         [Console Err (ExtractError (new_Error (js ''Unsupported file type'')))]) \<and>
      extractTextFromFile_placeholder w f =
        (Inl (new_Error (js ''Failed to extract text: Unsupported file type'')),
         [Console Err (ExtractError (new_Error (js ''Unsupported file type'')))]))"
proof (intro conjI impI)
  assume pdf: "file_type f = pdf_type"
  show "decoders_invoked (snd (extractTextFromFile w f cb)) = [PdfDecoder]"
    using pdf by (simp add: extractTextFromFile_invoked route_pdf decoders_invoked_Cons)
  show "fst (extractTextFromFile w f cb) = rethrow (extractTextFromPDF w)"
    using pdf by (simp add: extractTextFromFile_fst route_pdf)
  show "decoders_invoked (snd (extractTextFromFile_placeholder w f)) = [PdfDecoder]"
    using pdf
    by (simp add: extractTextFromFile_placeholder_invoked route_placeholder_pdf
        decoders_invoked_Cons)
  show "fst (extractTextFromFile_placeholder w f) = rethrow (extractTextFromPDF w)"
    using pdf by (simp add: extractTextFromFile_placeholder_fst route_placeholder_pdf)
next
  assume docx: "file_type f = docx_type"
  show "decoders_invoked (snd (extractTextFromFile w f cb)) = [DocxDecoder]"
    using docx by (simp add: extractTextFromFile_invoked route_docx decoders_invoked_Cons)
  show "fst (extractTextFromFile w f cb) = rethrow (extractTextFromDOCX w)"
    using docx by (simp add: extractTextFromFile_fst route_docx)
  show "decoders_invoked (snd (extractTextFromFile_placeholder w f)) = [DocxDecoder]"
    using docx
    by (simp add: extractTextFromFile_placeholder_invoked route_placeholder_docx
        decoders_invoked_Cons)
  show "fst (extractTextFromFile_placeholder w f) = rethrow (extractTextFromDOCX w)"
    using docx by (simp add: extractTextFromFile_placeholder_fst route_placeholder_docx)
next
  assume img: "startsWith (file_type f) (js ''image/'')"
  show "decoders_invoked (snd (extractTextFromFile w f cb)) = [OcrDecoder]"
    using img
    by (simp add: extractTextFromFile_invoked route_image decoders_invoked_Cons
        decoders_invoked_image)
  show "fst (extractTextFromFile w f cb) = rethrow (fst (extractTextFromImage (engine w) f cb))"
    using img by (simp add: extractTextFromFile_fst route_image)
  show "decoders_invoked (snd (extractTextFromFile_placeholder w f)) = [OcrDecoder]"
    using img
    by (simp add: extractTextFromFile_placeholder_invoked route_placeholder_image
        decoders_invoked_Cons)
  show "fst (extractTextFromFile_placeholder w f) = rethrow (extractTextFromImage_placeholder w f)"
    using img by (simp add: extractTextFromFile_placeholder_fst route_placeholder_image)
next
  assume other: "file_type f \<noteq> pdf_type \<and> file_type f \<noteq> docx_type \<and>
    \<not> startsWith (file_type f) (js ''image/'')"
  show "extractTextFromFile w f cb =
        (Inl (new_Error (js ''Failed to extract text: Unsupported file type'')),
         [Console Err (ExtractError (new_Error (js ''Unsupported file type'')))])"
    using other unsupported_wrapped by (simp add: extractTextFromFile_def route_other)
  show "extractTextFromFile_placeholder w f =
        (Inl (new_Error (js ''Failed to extract text: Unsupported file type'')),
         [Console Err (ExtractError (new_Error (js ''Unsupported file type'')))])"
    using other unsupported_wrapped
    by (simp add: extractTextFromFile_placeholder_def route_placeholder_other)
qed

theorem extractTextFromFile_routing_witness:
  "decoders_invoked (snd (extractTextFromFile some_libs pdf_file Null)) = [PdfDecoder] \<and>
   decoders_invoked (snd (extractTextFromFile some_libs docx_file Null)) = [DocxDecoder] \<and>
   decoders_invoked (snd (extractTextFromFile some_libs png_file Sink)) = [OcrDecoder] \<and>
   extractTextFromFile some_libs txt_file Sink =
     (Inl (new_Error (js ''Failed to extract text: Unsupported file type'')),
      [Console Err (ExtractError (new_Error (js ''Unsupported file type'')))])"
proof (intro conjI)
  have pdf: "file_type pdf_file = pdf_type"
    by (simp add: pdf_file_def)
  have docx: "file_type docx_file = docx_type"
    by (simp add: docx_file_def)
  note r = extractTextFromFile_routing
  show "decoders_invoked (snd (extractTextFromFile some_libs pdf_file Null)) = [PdfDecoder]"
    using r [of pdf_file some_libs Null, THEN conjunct1] pdf by (elim impE conjE)
  show "decoders_invoked (snd (extractTextFromFile some_libs docx_file Null)) = [DocxDecoder]"
    using r [of docx_file some_libs Null, THEN conjunct2, THEN conjunct1] docx
    by (elim impE conjE)
  show "decoders_invoked (snd (extractTextFromFile some_libs png_file Sink)) = [OcrDecoder]"
    using r [of png_file some_libs Sink, THEN conjunct2, THEN conjunct2, THEN conjunct1]
      png_is_image
    by (elim impE conjE)
  show "extractTextFromFile some_libs txt_file Sink =
     (Inl (new_Error (js ''Failed to extract text: Unsupported file type'')),
      [Console Err (ExtractError (new_Error (js ''Unsupported file type'')))])"
    using r [of txt_file some_libs Sink, THEN conjunct2, THEN conjunct2, THEN conjunct2,
             THEN mp, OF txt_is_other]
    by (elim conjE)
qed

section \<open>PDF decoder: pages joined by a blank line\<close>

text \<open>
  C2. When the PDF loads and every page gives its items, \<open>extractTextFromPDF\<close> returns
  the pages in ascending order, the fragments of a page joined by one space, consecutive
  pages separated by exactly the two characters LF LF, and the whole trimmed.  In
  particular the two pages \<open>["Hello", "World"]\<close> and \<open>["Foo"]\<close> give
  \<open>"Hello World\n\nFoo"\<close>.
\<close>

theorem extractTextFromPDF_pages_joined:
  assumes "arrayBuffer w = None" and "getDocument w = Inr (map Inr pages)"
  shows "extractTextFromPDF w =
           Inr (trim (join (js ''\<newline>\<newline>'') (map (join (js '' '')) pages))) \<and>
         (pages = [[js ''Hello'', js ''World''], [js ''Foo'']] \<longrightarrow>
            extractTextFromPDF w = Inr (js ''Hello World\<newline>\<newline>Foo''))"
proof -
  obtain t where t: "pdf_pages (map Inr pages) [] = Inr t"
    by (simp add: pdf_pages_ok)
  have general: "extractTextFromPDF w =
      Inr (trim (join (js ''\<newline>\<newline>'') (map (join (js '' '')) pages)))"
    using assms t pdf_pages_trim [OF t] by (simp add: extractTextFromPDF_def)
  have "trim (join (js ''\<newline>\<newline>'') (map (join (js '' '')) [[js ''Hello'', js ''World''], [js ''Foo'']]))
          = js ''Hello World\<newline>\<newline>Foo''"
    by (simp add: js_def trim_def trimStart_def trimEnd_def isWhiteSpace_def)
  with general show ?thesis by simp
qed

theorem extractTextFromPDF_pages_joined_witness:
  "arrayBuffer some_libs = None \<and>
   getDocument some_libs = Inr (map Inr [[js ''Hello'', js ''World''], [js ''Foo'']]) \<and>
   extractTextFromPDF some_libs = Inr (js ''Hello World\<newline>\<newline>Foo'')"
proof -
  have a: "arrayBuffer some_libs = None"
    by (simp add: some_libs_def)
  have g: "getDocument some_libs = Inr (map Inr [[js ''Hello'', js ''World''], [js ''Foo'']])"
    by (simp add: some_libs_def)
  from extractTextFromPDF_pages_joined [OF a g] a g show ?thesis by blast
qed

section \<open>OCR decoder: recognition without text\<close>

text \<open>
  C3. When the engine resolves with a text that is empty after trimming, the \<open>try\<close>
  block of \<open>extractTextFromImage\<close> throws the error whose message names a blurry,
  low-quality or textless image.  That message contains the word \<open>recognize\<close>, so the
  \<open>catch\<close> block of the same function replaces it: the call rejects with the message of a
  failed recognition, which is another message and does not mention blur.  The
  multi-language variant, whose \<open>catch\<close> has no such test, keeps its own message.
\<close>

theorem empty_recognition_message_replaced:
  assumes "create_result eng = None" and "recognize_result eng = Inr d"
    and "trim (data_text d) = []"
  shows "fst (image_try eng f cb) = Inl (new_Error no_text_message) \<and>
         fst (extractTextFromImage eng f cb) = Inl (new_Error recognition_failed_message) \<and>
         recognition_failed_message \<noteq> no_text_message \<and>
         \<not> includes_js recognition_failed_message (js ''blurry'') \<and>
         fst (extractTextFromImageMultiLang eng ls cb) =
           Inl (new_Error (js ''OCR processing failed: No text could be recognized in the image.''))"
proof (intro conjI)
  show "fst (image_try eng f cb) = Inl (new_Error no_text_message)"
    using assms by (auto simp: image_try_def Let_def)
  show "fst (extractTextFromImage eng f cb) = Inl (new_Error recognition_failed_message)"
    using assms by (simp add: extractTextFromImage_result catch_no_text)
  show "recognition_failed_message \<noteq> no_text_message"
    by (rule messages_differ)
  show "\<not> includes_js recognition_failed_message (js ''blurry'')"
    by (rule failed_message_no_blurry)
  have "ocr_failed_prefix @ js ''No text could be recognized in the image.'' =
        js ''OCR processing failed: No text could be recognized in the image.''"
    by (simp add: ocr_failed_prefix_def js_def)
  then show "fst (extractTextFromImageMultiLang eng ls cb) =
      Inl (new_Error (js ''OCR processing failed: No text could be recognized in the image.''))"
    using assms
    by (auto simp: extractTextFromImageMultiLang_def multi_try_def Let_def new_Error_def
        template_def)
qed

theorem empty_recognition_message_replaced_witness:
  "fst (extractTextFromImage blank_engine png_file Null) =
     Inl (new_Error (js ''Failed to recognize text in image. Please ensure the image contains clear, readable text.''))"
proof -
  have a: "create_result blank_engine = None"
    by (simp add: blank_engine_def some_engine_def)
  have b: "recognize_result blank_engine = Inr \<lparr>data_text = [], data_confidence = 95\<rparr>"
    by (simp add: blank_engine_def)
  have c: "trim (data_text \<lparr>data_text = [], data_confidence = 95\<rparr>) = []"
    by (simp add: trim_Nil)
  from empty_recognition_message_replaced [OF a b c, of png_file Null] show ?thesis
    by (simp add: recognition_failed_message_def)
qed

section \<open>OCR decoder: release of the engine\<close>

text \<open>
  C4, as the code has it.  \<open>terminate\<close> is called exactly once in every call in which
  \<open>createWorker\<close> resolved, whether the call then resolves or rejects and whether
  \<open>terminate\<close> itself fails or not; when \<open>createWorker\<close> rejects, \<open>worker\<close> is still
  \<open>null\<close> in the \<open>finally\<close> block and \<open>terminate\<close> is not called.
\<close>

theorem terminate_once_when_worker_created:
  "terminate_count (snd (extractTextFromImage eng f cb)) =
     (if create_result eng = None then 1 else 0)"
proof -
  obtain r wk tr where tr: "image_try eng f cb = (r, wk, tr)"
    by (cases "image_try eng f cb") auto
  have "terminate_count tr = 0"
    using terminate_count_try [of eng f cb] tr by simp
  moreover have "wk \<longleftrightarrow> create_result eng = None"
    using worker_assigned [of eng f cb] tr by simp
  ultimately show ?thesis using tr
    by (cases r) (simp_all add: extractTextFromImage_def image_catch_def terminate_count_finally
        terminate_count_Cons)
qed

theorem terminate_once_when_worker_created_witness:
  "terminate_count (snd (extractTextFromImage some_engine png_file Sink)) = 1 \<and>
   terminate_count (snd (extractTextFromImage blank_engine png_file Sink)) = 1"
  using terminate_once_when_worker_created [of some_engine png_file Sink]
    terminate_once_when_worker_created [of blank_engine png_file Sink]
  by (simp add: some_engine_def blank_engine_def)

text \<open>
  C4 as stated fails: when \<open>createWorker\<close> rejects, the call rejects and \<open>terminate\<close> has
  not been called.
\<close>

theorem terminate_not_called_counterexample:
  "fst (extractTextFromImage unreachable_engine png_file Null) =
     Inl (new_Error (js ''OCR processing failed: Network error'')) \<and>
   terminate_count (snd (extractTextFromImage unreachable_engine png_file Null)) = 0"
proof -
  have "fst (extractTextFromImage unreachable_engine png_file Null) =
     Inl (new_Error (js ''OCR processing failed: Network error''))"
    using network_no_recognize ocr_failed_network
    by (simp add: extractTextFromImage_result unreachable_engine_def image_catch_def
        new_Error_def template_def)
  moreover have "terminate_count (snd (extractTextFromImage unreachable_engine png_file Null)) = 0"
    by (simp add: extractTextFromImage_def image_try_def image_catch_def image_finally_def
        unreachable_engine_def logger_def terminate_count_Cons)
  ultimately show ?thesis by simp
qed

section \<open>Dispatcher: one failure shape\<close>

text \<open>
  C5. Whichever decoder the dispatcher selected, a value thrown by it is caught and
  replaced by an error whose message is \<open>Failed to extract text: \<close> followed by the
  message of the thrown value (kept as it is when the value has one); every failure of
  \<open>extractTextFromFile\<close> has this shape.
\<close>

theorem decoder_failures_rewrapped:
  "(file_type f = pdf_type \<and> extractTextFromPDF w = Inl e \<longrightarrow>
      fst (extractTextFromFile w f cb) =
        Inl (new_Error (extract_failed_prefix @ template (message e)))) \<and>
   (file_type f = docx_type \<and> extractTextFromDOCX w = Inl e \<longrightarrow>
      fst (extractTextFromFile w f cb) =
        Inl (new_Error (extract_failed_prefix @ template (message e)))) \<and>
   (startsWith (file_type f) (js ''image/'') \<and>
    fst (extractTextFromImage (engine w) f cb) = Inl e \<longrightarrow>
      fst (extractTextFromFile w f cb) =
        Inl (new_Error (extract_failed_prefix @ template (message e)))) \<and>
   (message e = Some m \<longrightarrow> template (message e) = m) \<and>
   (fst (extractTextFromFile w f cb) = Inl r \<longrightarrow>
      (\<exists>m. r = new_Error (extract_failed_prefix @ m)))"
proof (intro conjI impI)
  show "\<exists>m. r = new_Error (extract_failed_prefix @ m)"
    if "fst (extractTextFromFile w f cb) = Inl r"
    using that by (auto simp: extractTextFromFile_fst rethrow_def split: sum.splits)
qed (auto simp: extractTextFromFile_fst route_pdf route_docx route_image rethrow_def template_def)

theorem decoder_failures_rewrapped_witness:
  "fst (extractTextFromFile corrupt_libs pdf_file Null) =
     Inl (new_Error (js ''Failed to extract text: Invalid PDF structure''))"
proof -
  have a: "file_type pdf_file = pdf_type"
    by (simp add: pdf_file_def)
  have b: "extractTextFromPDF corrupt_libs = Inl (new_Error (js ''Invalid PDF structure''))"
    by (simp add: extractTextFromPDF_def corrupt_libs_def some_libs_def)
  have c: "extract_failed_prefix @ template (message (new_Error (js ''Invalid PDF structure''))) =
           js ''Failed to extract text: Invalid PDF structure''"
    by (simp add: extract_failed_prefix_def template_def new_Error_def js_def)
  from decoder_failures_rewrapped
         [of pdf_file corrupt_libs "new_Error (js ''Invalid PDF structure'')" Null]
    a b c
  show ?thesis by simp
qed

section \<open>Dispatcher: what a successful result looks like\<close>

text \<open>
  C6, as the code has it.  A text returned by \<open>extractTextFromFile\<close> for an image is
  trimmed and not empty.  No such check is made for the other two types: a PDF without
  pages gives the empty text, and the raw text of a DOCX is returned as it is, whatever
  it is.
\<close>

theorem image_result_nonempty:
  "(startsWith (file_type f) (js ''image/'') \<and> fst (extractTextFromFile w f cb) = Inr t \<longrightarrow>
      0 < length (trim t) \<and> trim t = t) \<and>
   (file_type f = pdf_type \<and> arrayBuffer w = None \<and> getDocument w = Inr [] \<longrightarrow>
      fst (extractTextFromFile w f cb) = Inr []) \<and>
   (file_type f = docx_type \<and> arrayBuffer w = None \<and> extractRawText w = Inr t \<longrightarrow>
      fst (extractTextFromFile w f cb) = Inr t)"
proof (intro conjI impI)
  assume "startsWith (file_type f) (js ''image/'') \<and> fst (extractTextFromFile w f cb) = Inr t"
  then have img: "startsWith (file_type f) (js ''image/'')"
    and res: "fst (extractTextFromFile w f cb) = Inr t"
    by simp_all
  from res have "fst (extractTextFromImage (engine w) f cb) = Inr t"
    by (simp add: extractTextFromFile_fst route_image [OF img] rethrow_Inr)
  then have "t \<noteq> [] \<and> trim t = t"
    by (rule extractTextFromImage_Inr)
  then show "0 < length (trim t)" and "trim t = t"
    by simp_all
next
  assume "file_type f = pdf_type \<and> arrayBuffer w = None \<and> getDocument w = Inr []"
  then show "fst (extractTextFromFile w f cb) = Inr []"
    by (simp add: extractTextFromFile_fst route_pdf rethrow_def extractTextFromPDF_def trim_Nil)
next
  assume "file_type f = docx_type \<and> arrayBuffer w = None \<and> extractRawText w = Inr t"
  then show "fst (extractTextFromFile w f cb) = Inr t"
    by (simp add: extractTextFromFile_fst route_docx rethrow_def extractTextFromDOCX_def)
qed

theorem image_result_nonempty_witness:
  "fst (extractTextFromFile some_libs png_file Sink) = Inr (js ''Invoice #123'') \<and>
   0 < length (trim (js ''Invoice #123''))"
proof -
  have "engine some_libs = some_engine"
    by (simp add: some_libs_def)
  then have "fst (extractTextFromFile some_libs png_file Sink) = Inr (js ''Invoice #123'')"
    using png_is_image some_engine_result [of Sink]
    by (simp add: extractTextFromFile_fst route_image rethrow_def)
  with image_result_nonempty [of png_file some_libs Sink "js ''Invoice #123''"] png_is_image
  show ?thesis by blast
qed

text \<open>
  C6 as stated fails: for a PDF without pages the dispatcher resolves, and the text it
  returns is empty.
\<close>

theorem pdf_result_empty_counterexample:
  "fst (extractTextFromFile zero_page_libs pdf_file Null) = Inr [] \<and>
   length (trim ([] :: jsstring)) = 0"
  by (simp add: extractTextFromFile_fst route_pdf rethrow_def extractTextFromPDF_def trim_Nil
      zero_page_libs_def some_libs_def pdf_file_def)

section \<open>OCR decoder: low confidence\<close>

text \<open>
  C7, as the code has it.  When recognition resolves with a text that is not empty
  after trimming and a confidence below 60, \<open>extractTextFromImage\<close> resolves with the
  trimmed text.  The whole trace of the call is the one of a run with a confidence of
  60 or more, apart from the confidence printed in the completion line, with one
  \<open>console.warn\<close> line added after that line: the engine is created, run and
  terminated in the same way, and nothing is thrown.
\<close>

theorem low_confidence_resolves:
  assumes "create_result eng = None" and "recognize_result eng = Inr d"
    and "trim (data_text d) \<noteq> []" and "data_confidence d < 60"
  shows "fst (extractTextFromImage eng f cb) = Inr (trim (data_text d)) \<and>
         Console Warn (LowConfidence (data_confidence d))
           \<in> set (snd (extractTextFromImage eng f cb)) \<and>
         (\<forall>c. fst (extractTextFromImage
                     (eng\<lparr>recognize_result := Inr (d\<lparr>data_confidence := c\<rparr>)\<rparr>) f cb) =
              fst (extractTextFromImage eng f cb)) \<and>
         snd (extractTextFromImage eng f cb) =
           [Console Log (StartingOcr (file_name f)), CreateWorker (js ''eng'')] @
           concat (map (logger cb) (create_progress eng)) @
           [Console Log WorkerCreated, Recognize] @
           concat (map (logger cb) (recognize_progress eng)) @
           [Console Log (OcrCompleted (data_confidence d)),
            Console Warn (LowConfidence (data_confidence d))] @
           image_finally eng True \<and>
         (\<forall>c. 60 \<le> c \<longrightarrow>
            snd (extractTextFromImage
                   (eng\<lparr>recognize_result := Inr (d\<lparr>data_confidence := c\<rparr>)\<rparr>) f cb) =
              [Console Log (StartingOcr (file_name f)), CreateWorker (js ''eng'')] @
              concat (map (logger cb) (create_progress eng)) @
              [Console Log WorkerCreated, Recognize] @
              concat (map (logger cb) (recognize_progress eng)) @
              [Console Log (OcrCompleted c)] @
              image_finally eng True)"
proof (intro conjI allI impI)
  have nonempty: "data_text d \<noteq> []"
    using assms(3) by (auto simp: trim_Nil)
  show "fst (extractTextFromImage eng f cb) = Inr (trim (data_text d))"
    using assms by (simp add: extractTextFromImage_result)
  show "Console Warn (LowConfidence (data_confidence d))
          \<in> set (snd (extractTextFromImage eng f cb))"
    using assms nonempty by (simp add: extractTextFromImage_def image_try_def Let_def)
  show "fst (extractTextFromImage
               (eng\<lparr>recognize_result := Inr (d\<lparr>data_confidence := c\<rparr>)\<rparr>) f cb) =
        fst (extractTextFromImage eng f cb)" for c
    using assms by (simp add: extractTextFromImage_result)
  show "snd (extractTextFromImage eng f cb) =
           [Console Log (StartingOcr (file_name f)), CreateWorker (js ''eng'')] @
           concat (map (logger cb) (create_progress eng)) @
           [Console Log WorkerCreated, Recognize] @
           concat (map (logger cb) (recognize_progress eng)) @
           [Console Log (OcrCompleted (data_confidence d)),
            Console Warn (LowConfidence (data_confidence d))] @
           image_finally eng True"
    using assms nonempty by (simp add: extractTextFromImage_def image_try_def Let_def)
  show "snd (extractTextFromImage
                   (eng\<lparr>recognize_result := Inr (d\<lparr>data_confidence := c\<rparr>)\<rparr>) f cb) =
              [Console Log (StartingOcr (file_name f)), CreateWorker (js ''eng'')] @
              concat (map (logger cb) (create_progress eng)) @
              [Console Log WorkerCreated, Recognize] @
              concat (map (logger cb) (recognize_progress eng)) @
              [Console Log (OcrCompleted c)] @
              image_finally eng True"
    if "60 \<le> c" for c
    using assms nonempty that
    by (simp add: extractTextFromImage_def image_try_def image_finally_def Let_def)
qed

theorem low_confidence_resolves_witness:
  "fst (extractTextFromImage unsure_engine png_file Null) = Inr (js ''hello'')"
proof -
  have a: "create_result unsure_engine = None"
    by (simp add: unsure_engine_def some_engine_def)
  have b: "recognize_result unsure_engine =
             Inr \<lparr>data_text = js ''hello'', data_confidence = 42\<rparr>"
    by (simp add: unsure_engine_def)
  have c: "trim (data_text \<lparr>data_text = js ''hello'', data_confidence = 42\<rparr>) \<noteq> []"
    by (simp add: trim_hello) (simp add: js_def)
  have d: "data_confidence \<lparr>data_text = js ''hello'', data_confidence = 42\<rparr> < 60"
    by simp
  from low_confidence_resolves [OF a b c d, of png_file Null] show ?thesis
    by (simp add: trim_hello)
qed

text \<open>
  C7 as stated fails: the text of one space is not empty and the confidence 42 is below
  60, yet the validation, which comes before the confidence test, throws, and the call
  rejects.
\<close>

theorem whitespace_text_rejected_counterexample:
  "js '' '' \<noteq> [] \<and> (42 :: real) < 60 \<and>
   recognize_result whitespace_engine =
     Inr \<lparr>data_text = js '' '', data_confidence = 42\<rparr> \<and>
   fst (extractTextFromImage whitespace_engine png_file Null) =
     Inl (new_Error (js ''Failed to recognize text in image. Please ensure the image contains clear, readable text.''))"
proof -
  have "trim (js '' '') = []"
    by (simp add: js_def trim_def trimStart_def trimEnd_def isWhiteSpace_def)
  then have "fst (extractTextFromImage whitespace_engine png_file Null) =
      Inl (new_Error recognition_failed_message)"
    by (simp add: extractTextFromImage_result whitespace_engine_def some_engine_def
        catch_no_text)
  moreover have "js '' '' \<noteq> []"
    by (simp add: js_def)
  ultimately show ?thesis
    by (simp add: whitespace_engine_def recognition_failed_message_def)
qed

section \<open>Progress events\<close>

text \<open>
  C8. With a callback supplied, the logger of \<open>extractTextFromImage\<close> calls it for a
  message exactly when the status of the message is one of the four enumerated ones,
  and the logger of \<open>extractTextFromImageMultiLang\<close> calls it for every message; so
  the calls made during a whole run are those of the logger on the messages of the
  engine, in order.
\<close>

theorem progress_forwarding:
  "sink_calls (logger Sink m) =
     (if status m \<in> set enumerated_statuses then
        [\<lparr>status = status m,
          progress = (if status m = js ''recognizing text'' then progress m
                      else or_zero (progress m))\<rparr>]
      else []) \<and>
   sink_calls (logger_multi Sink m) = [\<lparr>status = status m, progress = or_zero (progress m)\<rparr>] \<and>
   sink_calls (snd (extractTextFromImage eng f Sink)) =
     concat (map (\<lambda>m. sink_calls (logger Sink m)) (engine_messages eng)) \<and>
   sink_calls (snd (extractTextFromImageMultiLang eng ls Sink)) =
     concat (map (\<lambda>m. sink_calls (logger_multi Sink m)) (engine_messages eng))"
  using sink_calls_logger sink_calls_logger_multi sink_calls_image sink_calls_multi by simp

theorem progress_forwarding_witness:
  "sink_calls (snd (extractTextFromImage chatty_engine png_file Sink)) =
     [\<lparr>status = js ''initializing tesseract'', progress = Some 0\<rparr>,
      \<lparr>status = js ''recognizing text'', progress = Some (1/2)\<rparr>,
      \<lparr>status = js ''recognizing text'', progress = Some 1\<rparr>] \<and>
   sink_calls (snd (extractTextFromImageMultiLang chatty_engine [js ''eng'', js ''fra''] Sink)) =
     [\<lparr>status = js ''initializing api'', progress = Some (1/4)\<rparr>,
      \<lparr>status = js ''initializing tesseract'', progress = Some 0\<rparr>,
      \<lparr>status = js ''recognizing text'', progress = Some (1/2)\<rparr>,
      \<lparr>status = js ''recognizing text'', progress = Some 1\<rparr>]"
  using progress_forwarding [of _ chatty_engine png_file "[js ''eng'', js ''fra'']"]
  by (simp add: chatty_engine_def some_engine_def engine_messages_def enumerated_statuses_def
      or_zero_def) (simp add: js_def)

section \<open>Trimmed output\<close>

text \<open>
  C9. A text returned by \<open>extractTextFromImage\<close> or by \<open>extractTextFromPDF\<close> has no
  white space at either end: trimming it again changes nothing.
\<close>

theorem decoder_output_trimmed:
  "(fst (extractTextFromImage eng f cb) = Inr t \<longrightarrow> trim t = t) \<and>
   (extractTextFromPDF w = Inr t' \<longrightarrow> trim t' = t')"
  using extractTextFromImage_Inr extractTextFromPDF_Inr by blast

theorem decoder_output_trimmed_witness:
  "fst (extractTextFromImage some_engine png_file Sink) = Inr (js ''Invoice #123'') \<and>
   trim (js ''Invoice #123'') = js ''Invoice #123'' \<and>
   extractTextFromPDF some_libs = Inr (js ''Hello World\<newline>\<newline>Foo'') \<and>
   trim (js ''Hello World\<newline>\<newline>Foo'') = js ''Hello World\<newline>\<newline>Foo''"
proof -
  have pdf: "extractTextFromPDF some_libs = Inr (js ''Hello World\<newline>\<newline>Foo'')"
    by (simp add: extractTextFromPDF_def some_libs_def js_def trim_def trimStart_def
        trimEnd_def isWhiteSpace_def)
  from decoder_output_trimmed
         [of some_engine png_file Sink "js ''Invoice #123''" some_libs
             "js ''Hello World\<newline>\<newline>Foo''"]
    some_engine_result [of Sink] pdf
  show ?thesis by blast
qed

section \<open>PDF without text\<close>

text \<open>
  C10. For a PDF that loads and has no page, or whose pages all have no item,
  \<open>extractTextFromFile\<close> resolves with the empty string.  Only the OCR path checks its
  text for emptiness: a DOCX whose raw text is empty resolves with the empty string as
  well, while an image recognised as empty text makes the call fail.
\<close>

theorem blank_pdf_resolves_empty:
  "(file_type f = pdf_type \<and> arrayBuffer w = None \<and> getDocument w = Inr pages \<and>
    (\<forall>p\<in>set pages. p = Inr []) \<longrightarrow>
      extractTextFromFile w f cb = (Inr [], [Invoke PdfDecoder])) \<and>
   (file_type f = docx_type \<and> arrayBuffer w = None \<and> extractRawText w = Inr [] \<longrightarrow>
      extractTextFromFile w f cb = (Inr [], [Invoke DocxDecoder])) \<and>
   (startsWith (file_type f) (js ''image/'') \<and> create_result (engine w) = None \<and>
    recognize_result (engine w) = Inr d \<and> trim (data_text d) = [] \<longrightarrow>
      (\<exists>e. fst (extractTextFromFile w f cb) = Inl e))"
proof (intro conjI impI)
  assume h: "file_type f = pdf_type \<and> arrayBuffer w = None \<and> getDocument w = Inr pages \<and>
    (\<forall>p\<in>set pages. p = Inr [])"
  then have "extractTextFromPDF w = Inr []"
    by (intro extractTextFromPDF_blank [of w pages]) simp_all
  then show "extractTextFromFile w f cb = (Inr [], [Invoke PdfDecoder])"
    using h by (simp add: extractTextFromFile_def route_pdf)
next
  assume h: "file_type f = docx_type \<and> arrayBuffer w = None \<and> extractRawText w = Inr []"
  then have "route w f cb = (extractTextFromDOCX w, [Invoke DocxDecoder])"
    by (intro route_docx) simp
  then show "extractTextFromFile w f cb = (Inr [], [Invoke DocxDecoder])"
    using h by (simp add: extractTextFromFile_def extractTextFromDOCX_def)
next
  assume h: "startsWith (file_type f) (js ''image/'') \<and> create_result (engine w) = None \<and>
    recognize_result (engine w) = Inr d \<and> trim (data_text d) = []"
  then have img: "startsWith (file_type f) (js ''image/'')"
    by simp
  from h have "\<exists>e. fst (extractTextFromImage (engine w) f cb) = Inl e"
    by (simp add: extractTextFromImage_result)
  then show "\<exists>e. fst (extractTextFromFile w f cb) = Inl e"
    by (auto simp: extractTextFromFile_fst route_image [OF img] rethrow_def)
qed

theorem blank_pdf_resolves_empty_witness:
  "extractTextFromFile zero_page_libs pdf_file Null = (Inr [], [Invoke PdfDecoder]) \<and>
   extractTextFromFile blank_pages_libs pdf_file Null = (Inr [], [Invoke PdfDecoder])"
proof -
  have z: "file_type pdf_file = pdf_type \<and> arrayBuffer zero_page_libs = None \<and>
           getDocument zero_page_libs = Inr [] \<and>
           (\<forall>p\<in>set ([] :: pdf_page list). p = Inr [])"
    by (simp add: pdf_file_def zero_page_libs_def some_libs_def)
  have b: "file_type pdf_file = pdf_type \<and> arrayBuffer blank_pages_libs = None \<and>
           getDocument blank_pages_libs = Inr [Inr [], Inr []] \<and>
           (\<forall>p\<in>set [Inr [], Inr [] :: pdf_page]. p = Inr [])"
    by (simp add: pdf_file_def blank_pages_libs_def some_libs_def)
  note r = blank_pdf_resolves_empty
  from r [of pdf_file zero_page_libs "[]" Null, THEN conjunct1, THEN mp, OF z]
    r [of pdf_file blank_pages_libs "[Inr [], Inr []]" Null, THEN conjunct1, THEN mp, OF b]
  show ?thesis by (intro conjI)
qed

end
